theory Spec2Isabelle
  imports Complex_Main "HOL-Library.AList"
begin

section \<open>Common vocabulary\<close>

text \<open>
  Python exceptions are values. Every function that can raise returns
  \<open>py_error + 'a\<close>, with \<open>Inl\<close> for the exception.
  Arithmetic on tensor entries is modelled over the reals: rounding of floating-point
  numbers is outside this development.
\<close>

datatype py_error = AssertionError | KeyError | IndexError | TypeError | RuntimeError

text \<open>A Python \<open>dict\<close> with string keys: an association list with distinct keys,
  in insertion order.\<close>

type_synonym 'v dict = "(string \<times> 'v) list"

definition dict_get :: "'v dict \<Rightarrow> string \<Rightarrow> py_error + 'v" where
  "dict_get d k = (case map_of d k of None \<Rightarrow> Inl KeyError | Some v \<Rightarrow> Inr v)"

text \<open>\<open>d.update(e)\<close>: every pair of \<open>e\<close>, in order, overwrites or is appended.\<close>

definition dict_update :: "'v dict \<Rightarrow> 'v dict \<Rightarrow> 'v dict" where
  "dict_update d e = fold (\<lambda>(k, v) m. AList.update k v m) e d"

text \<open>\<open>{k + suffix: v for k, v in d.items()}\<close>\<close>

definition suffix_keys :: "string \<Rightarrow> 'v dict \<Rightarrow> 'v dict" where
  "suffix_keys s d = map (\<lambda>(k, v). (k @ s, v)) d"

text \<open>Python's \<open>str(i)\<close> for a natural number, as used by the f-strings.\<close>

definition digit_char :: "nat \<Rightarrow> char" where
  "digit_char d = ''0123456789'' ! d"

fun str_nat :: "nat \<Rightarrow> string" where
  "str_nat n = (if n < 10 then [digit_char n] else str_nat (n div 10) @ [digit_char (n mod 10)])"

declare str_nat.simps [simp del]

text \<open>List indexing that raises where Python raises (indices are never negative here).\<close>

definition nth_chk :: "'a list \<Rightarrow> nat \<Rightarrow> py_error + 'a" where
  "nth_chk xs i = (if i < length xs then Inr (xs ! i) else Inl IndexError)"

text \<open>Run a list of fallible computations in order, stopping at the first error.\<close>

fun sequence :: "(py_error + 'a) list \<Rightarrow> py_error + 'a list" where
  "sequence [] = Inr []"
| "sequence (r # rs) =
     (case r of Inl e \<Rightarrow> Inl e
      | Inr x \<Rightarrow> (case sequence rs of Inl e \<Rightarrow> Inl e | Inr xs \<Rightarrow> Inr (x # xs)))"

section \<open>The criterion: \<open>SetCriterion\<close> of monorange.py\<close>

text \<open>
  Tensors of the model's output dictionary are nested lists of reals, indexed
  (batch, query, component). The dictionary maps a key to such a tensor, to a feature
  map (\<open>'pred_range_map_logits'\<close>), to a list of feature maps
  (\<open>'pred_region_prob'\<close>) or, for \<open>'inter_outputs'\<close> and \<open>'aux_outputs'\<close>, to a list
  of per-layer dictionaries.
\<close>

type_synonym tensor = "real list list list"

text \<open>Feature maps have four dimensions (batch, channel, height, width).\<close>

type_synonym tensor4 = "real list list list list"

datatype outval =
    Tensor tensor
  | Maps tensor4
  | MapList "tensor4 list"
  | Layers "(string \<times> outval) list list"

type_synonym outputs = "outval dict"

text \<open>A target dictionary: the entries read by the code modelled here.
  \<open>t['range']\<close> has shape (n, 1) and is kept as the list of its n entries.\<close>

record target =
  labels :: "int list"
  range_t :: "real list"

text \<open>The matcher's result: per batch element the pair (source indices, target indices).\<close>

type_synonym indices = "(nat list \<times> nat list) list"

type_synonym loss_fn =
  "outputs \<Rightarrow> target list \<Rightarrow> indices \<Rightarrow> real \<Rightarrow> py_error + real dict"

text \<open>
  The criterion object. \<open>matcher\<close> is the module built by \<open>build_matcher\<close>; the loss
  methods whose bodies call into libraries outside this repository's sources
  (focal loss, box operations, cross entropy, the range-map loss, interpolation)
  are fields, so that every statement below holds for whatever they compute.
  \<open>loss_labels\<close> takes its keyword argument \<open>log\<close> first.
\<close>

record criterion =
  matcher :: "outputs \<Rightarrow> target list \<Rightarrow> nat \<Rightarrow> py_error + indices"
  losses :: "string list"
  inter_losses :: "string list"
  group_num :: nat
  training :: bool
  loss_labels :: "bool \<Rightarrow> loss_fn"
  loss_cardinality :: loss_fn
  loss_boxes :: loss_fn
  loss_dims :: loss_fn
  loss_angles :: loss_fn
  loss_3dcenter :: loss_fn
  loss_range_map :: loss_fn
  loss_region :: loss_fn
  loss_cycle_consistency :: loss_fn

subsection \<open>\<open>_get_src_permutation_idx\<close> and \<open>loss_ranges\<close>\<close>

text \<open>\<open>torch.cat\<close> of a list of one-dimensional tensors; an empty list of tensors raises.\<close>

definition torch_cat :: "'a list list \<Rightarrow> py_error + 'a list" where
  "torch_cat ts = (if ts = [] then Inl RuntimeError else Inr (concat ts))"

definition get_src_permutation_idx :: "indices \<Rightarrow> py_error + (nat list \<times> nat list)" where
  "get_src_permutation_idx ind =
     (case torch_cat (map (\<lambda>(i, (src, _)). replicate (length src) i) (enumerate 0 ind)) of
        Inl e \<Rightarrow> Inl e
      | Inr batch_idx \<Rightarrow>
          (case torch_cat (map (\<lambda>(src, _). src) ind) of
             Inl e \<Rightarrow> Inl e
           | Inr src_idx \<Rightarrow> Inr (batch_idx, src_idx)))"

text \<open>\<open>x[idx]\<close> for \<open>idx = (batch_idx, src_idx)\<close>: row k is \<open>x[batch_idx[k]][src_idx[k]]\<close>.
  Both index tensors have the same length by construction.\<close>

definition index2 :: "tensor \<Rightarrow> nat list \<times> nat list \<Rightarrow> py_error + real list list" where
  "index2 x idx =
     sequence (map (\<lambda>(b, s). case nth_chk x b of Inl e \<Rightarrow> Inl e | Inr row \<Rightarrow> nth_chk row s)
                   (zip (fst idx) (snd idx)))"

text \<open>\<open>t[i]\<close> for a one-dimensional index tensor \<open>i\<close>.\<close>

definition index1 :: "'a list \<Rightarrow> nat list \<Rightarrow> py_error + 'a list" where
  "index1 t i = sequence (map (nth_chk t) i)"

text \<open>\<open>x[:, c]\<close> on a two-dimensional tensor.\<close>

definition column :: "real list list \<Rightarrow> nat \<Rightarrow> py_error + real list" where
  "column x c = sequence (map (\<lambda>row. nth_chk row c) x)"

definition outputs_tensor :: "outputs \<Rightarrow> string \<Rightarrow> py_error + tensor" where
  "outputs_tensor out k =
     (case dict_get out k of Inl e \<Rightarrow> Inl e
      | Inr (Tensor x) \<Rightarrow> Inr x
      | Inr _ \<Rightarrow> Inl TypeError)"

text \<open>The per-pair term of the range loss: a Laplacian negative log-likelihood with
  log-variance \<open>range_log_variance\<close>.\<close>

definition range_term :: "real \<Rightarrow> real \<Rightarrow> real \<Rightarrow> real" where
  "range_term range_input range_log_variance target_range =
     14142 / 10000 * exp (- range_log_variance) * \<bar>range_input - target_range\<bar>
       + range_log_variance"

definition loss_ranges :: loss_fn where
  "loss_ranges out targets ind num_boxes =
     (case get_src_permutation_idx ind of Inl e \<Rightarrow> Inl e | Inr idx \<Rightarrow>
      case outputs_tensor out ''pred_range'' of Inl e \<Rightarrow> Inl e | Inr pred_range \<Rightarrow>
      case index2 pred_range idx of Inl e \<Rightarrow> Inl e | Inr src_ranges \<Rightarrow>
      case sequence (map (\<lambda>(t, (_, i)). index1 (range_t t) i) (zip targets ind)) of
        Inl e \<Rightarrow> Inl e | Inr per_target \<Rightarrow>
      case torch_cat per_target of Inl e \<Rightarrow> Inl e | Inr target_ranges \<Rightarrow>
      case column src_ranges 0 of Inl e \<Rightarrow> Inl e | Inr range_input \<Rightarrow>
      case column src_ranges 1 of Inl e \<Rightarrow> Inl e | Inr range_log_variance \<Rightarrow>
      \<comment> \<open>broadcasting of two one-dimensional operands: equal sizes, or one of size 1\<close>
      if length target_ranges \<noteq> length range_input \<and> length target_ranges \<noteq> 1
           \<and> length range_input \<noteq> 1
      then Inl RuntimeError
      else
        let n = (if length range_input = 1 then length target_ranges else length range_input);
            bc = (\<lambda>xs k. if length xs = 1 then xs ! 0 else xs ! k);
            range_loss = map (\<lambda>k. range_term (bc range_input k) (bc range_log_variance k)
                                     (bc target_ranges k)) [0..<n]
        in Inr [(''loss_range'', sum_list range_loss / num_boxes)])"

subsection \<open>\<open>get_loss\<close>\<close>

text \<open>
  The keyword arguments passed on by \<open>get_loss\<close> are either empty (\<open>None\<close>) or
  \<open>{'log': b}\<close> (\<open>Some b\<close>). Only \<open>loss_labels\<close> has a parameter \<open>log\<close> (default
  \<open>True\<close>); any other method called with it raises \<open>TypeError\<close>.
\<close>

definition no_kwargs :: "loss_fn \<Rightarrow> bool option \<Rightarrow> loss_fn" where
  "no_kwargs f kwargs out targets ind num_boxes =
     (case kwargs of None \<Rightarrow> f out targets ind num_boxes | Some _ \<Rightarrow> Inl TypeError)"

definition loss_map :: "criterion \<Rightarrow> (string \<times> (bool option \<Rightarrow> loss_fn)) list" where
  "loss_map c =
     [(''labels'', \<lambda>kwargs. loss_labels c (case kwargs of None \<Rightarrow> True | Some b \<Rightarrow> b)),
      (''cardinality'', no_kwargs (loss_cardinality c)),
      (''boxes'', no_kwargs (loss_boxes c)),
      (''ranges'', no_kwargs loss_ranges),
      (''dims'', no_kwargs (loss_dims c)),
      (''angles'', no_kwargs (loss_angles c)),
      (''center'', no_kwargs (loss_3dcenter c)),
      (''range_map'', no_kwargs (loss_range_map c)),
      (''region'', no_kwargs (loss_region c)),
      (''cycle_consistency'', no_kwargs (loss_cycle_consistency c))]"

definition get_loss ::
  "criterion \<Rightarrow> string \<Rightarrow> outputs \<Rightarrow> target list \<Rightarrow> indices \<Rightarrow> real \<Rightarrow> bool option
     \<Rightarrow> py_error + real dict" where
  "get_loss c loss out targets ind num_boxes kwargs =
     (case map_of (loss_map c) loss of
        None \<Rightarrow> Inl AssertionError
      | Some f \<Rightarrow> f kwargs out targets ind num_boxes)"

definition supported_losses :: "string list" where
  "supported_losses =
     [''labels'', ''cardinality'', ''boxes'', ''ranges'', ''dims'', ''angles'', ''center'',
      ''range_map'', ''region'', ''cycle_consistency'']"


subsection \<open>\<open>forward\<close>\<close>

text \<open>A \<open>for\<close> loop over a list whose body may raise: the first exception leaves the loop.\<close>

fun for_each :: "'a list \<Rightarrow> ('a \<Rightarrow> 's \<Rightarrow> py_error + 's) \<Rightarrow> 's \<Rightarrow> py_error + 's" where
  "for_each [] body s = Inr s"
| "for_each (x # xs) body s =
     (case body x s of Inl e \<Rightarrow> Inl e | Inr s' \<Rightarrow> for_each xs body s')"

text \<open>
  \<open>num_boxes\<close> as computed at the head of \<open>forward\<close>: the number of target labels
  times the group number, divided by the world size (the result of
  \<open>get_world_size()\<close>, a parameter here) and clamped from below by 1.
\<close>

definition effective_group_num :: "criterion \<Rightarrow> nat" where
  "effective_group_num c = (if training c then group_num c else 1)"

definition num_boxes_of :: "criterion \<Rightarrow> nat \<Rightarrow> target list \<Rightarrow> real" where
  "num_boxes_of c world_size targets =
     (let num_boxes = sum_list (map (\<lambda>t. length (labels t)) targets) * effective_group_num c
      in max (real num_boxes / real world_size) 1)"

type_synonym get_loss_fn =
  "criterion \<Rightarrow> string \<Rightarrow> outputs \<Rightarrow> target list \<Rightarrow> indices \<Rightarrow> real \<Rightarrow> bool option
     \<Rightarrow> py_error + real dict"

definition outputs_layers :: "outputs \<Rightarrow> string \<Rightarrow> py_error + outputs list" where
  "outputs_layers out k =
     (case dict_get out k of Inl e \<Rightarrow> Inl e
      | Inr (Layers ls) \<Rightarrow> Inr ls
      | Inr _ \<Rightarrow> Inl TypeError)"

text \<open>
  \<open>forward\<close>, with the method \<open>self.get_loss\<close> it calls as the parameter \<open>gl\<close>.
  The three blocks are the three loops of the source, in the source's order:
  the intermediate (2D detector) layers, the last layer, the auxiliary layers.
\<close>

definition forward_with ::
  "get_loss_fn \<Rightarrow> criterion \<Rightarrow> nat \<Rightarrow> outputs \<Rightarrow> target list \<Rightarrow> py_error + real dict" where
  "forward_with gl c world_size out targets =
     (let group_num = effective_group_num c;
          num_boxes = num_boxes_of c world_size targets
      in
      case outputs_layers out ''inter_outputs'' of Inl e \<Rightarrow> Inl e | Inr inter_list \<Rightarrow>
      case for_each (enumerate 0 inter_list)
             (\<lambda>(i, inter_outputs) acc.
                case matcher c inter_outputs targets group_num of Inl e \<Rightarrow> Inl e
                | Inr ind \<Rightarrow>
                    for_each (inter_losses c)
                      (\<lambda>loss acc.
                         case gl c loss inter_outputs targets ind num_boxes None of
                           Inl e \<Rightarrow> Inl e
                         | Inr l_dict \<Rightarrow>
                             Inr (dict_update acc
                                    (suffix_keys (''_inter_'' @ str_nat i) l_dict)))
                      acc)
             [] of Inl e \<Rightarrow> Inl e | Inr losses1 \<Rightarrow>
      let outputs_without_aux =
            filter (\<lambda>(k, v). k \<noteq> ''aux_outputs'' \<and> k \<noteq> ''inter_outputs'') out
      in
      case matcher c outputs_without_aux targets group_num of Inl e \<Rightarrow> Inl e | Inr ind \<Rightarrow>
      case for_each (losses c)
             (\<lambda>loss acc.
                case gl c loss out targets ind num_boxes None of Inl e \<Rightarrow> Inl e
                | Inr l_dict \<Rightarrow> Inr (dict_update acc l_dict))
             losses1 of Inl e \<Rightarrow> Inl e | Inr losses2 \<Rightarrow>
      if map_of out ''aux_outputs'' = None then Inr losses2
      else
        case outputs_layers out ''aux_outputs'' of Inl e \<Rightarrow> Inl e | Inr aux_list \<Rightarrow>
        for_each (enumerate 0 aux_list)
          (\<lambda>(i, aux_outputs) acc.
             case matcher c aux_outputs targets group_num of Inl e \<Rightarrow> Inl e
             | Inr ind \<Rightarrow>
                 for_each (losses c)
                   (\<lambda>loss acc.
                      if loss = ''range_map'' \<or> loss = ''region'' then Inr acc
                      else
                        let kwargs = (if loss = ''labels'' then Some False else None) in
                        case gl c loss aux_outputs targets ind num_boxes kwargs of
                          Inl e \<Rightarrow> Inl e
                        | Inr l_dict \<Rightarrow>
                            Inr (dict_update acc (suffix_keys (''_'' @ str_nat i) l_dict)))
                   acc)
          losses2)"

definition forward :: "criterion \<Rightarrow> nat \<Rightarrow> outputs \<Rightarrow> target list \<Rightarrow> py_error + real dict" where
  "forward = forward_with get_loss"

subsection \<open>What \<open>forward\<close> computes, stated layer by layer\<close>

text \<open>
  The loss computations of one layer: the matching of \<open>match_on\<close> is computed first;
  then each loss of \<open>names\<close> is computed on \<open>loss_on\<close> with that matching, its keys
  extended by \<open>suffix\<close>. A failing matcher is the layer's only step.
\<close>

definition layer_losses ::
  "criterion \<Rightarrow> real \<Rightarrow> target list \<Rightarrow> string list \<Rightarrow> (string \<Rightarrow> bool option) \<Rightarrow> string
     \<Rightarrow> outputs \<Rightarrow> outputs \<Rightarrow> (py_error + real dict) list" where
  "layer_losses c num_boxes targets names kwargs_of suffix match_on loss_on =
     (case matcher c match_on targets (effective_group_num c) of
        Inl e \<Rightarrow> [Inl e]
      | Inr ind \<Rightarrow>
          map (\<lambda>loss. case get_loss c loss loss_on targets ind num_boxes (kwargs_of loss) of
                         Inl e \<Rightarrow> Inl e
                       | Inr l_dict \<Rightarrow> Inr (suffix_keys suffix l_dict))
              names)"

text \<open>The steps run in order; the result is the empty dictionary updated with the
  dictionary of every step, unless a step raises.\<close>

definition run_steps :: "(py_error + real dict) list \<Rightarrow> real dict \<Rightarrow> py_error + real dict" where
  "run_steps steps acc =
     (case sequence steps of Inl e \<Rightarrow> Inl e
      | Inr ds \<Rightarrow> Inr (fold (\<lambda>d a. dict_update a d) ds acc))"

definition aux_kwargs :: "string \<Rightarrow> bool option" where
  "aux_kwargs loss = (if loss = ''labels'' then Some False else None)"

definition aux_steps :: "criterion \<Rightarrow> real \<Rightarrow> outputs \<Rightarrow> target list \<Rightarrow> (py_error + real dict) list" where
  "aux_steps c num_boxes out targets =
     (case map_of out ''aux_outputs'' of
        None \<Rightarrow> []
      | Some (Layers aux_list) \<Rightarrow>
          concat (map (\<lambda>(i, aux_outputs).
                         layer_losses c num_boxes targets
                           (filter (\<lambda>loss. loss \<noteq> ''range_map'' \<and> loss \<noteq> ''region'') (losses c))
                           aux_kwargs (''_'' @ str_nat i) aux_outputs aux_outputs)
                      (enumerate 0 aux_list))
      | Some _ \<Rightarrow> [Inl TypeError])"

definition main_steps :: "criterion \<Rightarrow> real \<Rightarrow> outputs \<Rightarrow> target list \<Rightarrow> (py_error + real dict) list" where
  "main_steps c num_boxes out targets =
     layer_losses c num_boxes targets (losses c) (\<lambda>_. None) []
       (filter (\<lambda>(k, v). k \<noteq> ''aux_outputs'' \<and> k \<noteq> ''inter_outputs'') out) out"

text \<open>
  The intermediate layers, with the list of loss names as a parameter: the source
  uses \<open>self.inter_losses\<close> here.
\<close>

definition inter_steps ::
  "criterion \<Rightarrow> string list \<Rightarrow> real \<Rightarrow> outputs list \<Rightarrow> target list \<Rightarrow> (py_error + real dict) list" where
  "inter_steps c names num_boxes inter_list targets =
     concat (map (\<lambda>(i, inter_outputs).
                    layer_losses c num_boxes targets names (\<lambda>_. None)
                      (''_inter_'' @ str_nat i) inter_outputs inter_outputs)
                 (enumerate 0 inter_list))"

definition forward_layers ::
  "string list \<Rightarrow> criterion \<Rightarrow> nat \<Rightarrow> outputs \<Rightarrow> target list \<Rightarrow> py_error + real dict" where
  "forward_layers inter_names c world_size out targets =
     (case outputs_layers out ''inter_outputs'' of
        Inl e \<Rightarrow> Inl e
      | Inr inter_list \<Rightarrow>
          (let num_boxes = num_boxes_of c world_size targets
           in run_steps (inter_steps c inter_names num_boxes inter_list targets
                           @ main_steps c num_boxes out targets
                           @ aux_steps c num_boxes out targets) []))"

text \<open>The reading under which the intermediate layers repeat the loss computation
  of the last layer, that is, every loss named in \<open>self.losses\<close>.\<close>

definition forward_as_claimed :: "criterion \<Rightarrow> nat \<Rightarrow> outputs \<Rightarrow> target list \<Rightarrow> py_error + real dict" where
  "forward_as_claimed c = forward_layers (losses c) c"

text \<open>\<open>get_loss\<close> behind a check that raises when it is handed \<open>num_boxes < 1\<close>.\<close>

definition num_boxes_guard :: "get_loss_fn \<Rightarrow> get_loss_fn" where
  "num_boxes_guard gl c loss out targets ind num_boxes kwargs =
     (if 1 \<le> num_boxes then gl c loss out targets ind num_boxes kwargs else Inl RuntimeError)"

subsection \<open>A small criterion for concrete evaluation\<close>

definition const_loss :: "string \<Rightarrow> loss_fn" where
  "const_loss key out targets ind num_boxes = Inr [(key, 1 / num_boxes)]"

definition ex_matcher :: "outputs \<Rightarrow> target list \<Rightarrow> nat \<Rightarrow> py_error + indices" where
  "ex_matcher out targets g = Inr (map (\<lambda>t. ([0..<length (labels t)], [0..<length (labels t)])) targets)"

definition ex_criterion :: criterion where
  "ex_criterion =
     \<lparr> matcher = ex_matcher,
       losses = [''cardinality''],
       inter_losses = [''center''],
       group_num = 11,
       training = False,
       loss_labels = (\<lambda>log. const_loss ''loss_ce''),
       loss_cardinality = const_loss ''cardinality_error'',
       loss_boxes = const_loss ''loss_bbox'',
       loss_dims = const_loss ''loss_dim'',
       loss_angles = const_loss ''loss_angle'',
       loss_3dcenter = const_loss ''loss_center'',
       loss_range_map = const_loss ''loss_range_map'',
       loss_region = const_loss ''loss_region'',
       loss_cycle_consistency = const_loss ''loss_cycle_consistency'' \<rparr>"

definition ex_outputs :: outputs where
  "ex_outputs =
     [(''pred_range'', Tensor [[[30, 0], [12, 0]]]),
      (''inter_outputs'', Layers [[(''pred_boxes'', Tensor [[[0, 0, 0, 0, 0, 0]]])]])]"

definition ex_targets :: "target list" where
  "ex_targets = [\<lparr> labels = [1], range_t = [28] \<rparr>]"

subsection \<open>Matched pairs\<close>



section \<open>The detector: \<open>monorange\<close> of monorange.py\<close>

text \<open>
  Nested lists stand for tensors: a dimension behind an empty one is not represented,
  and all rows of a dimension are taken to have one length. Element-wise operations
  are modelled on operands of equal shape (and on the broadcasts the source relies
  on); where the shapes differ otherwise the model raises \<open>RuntimeError\<close>.
\<close>

type_synonym matrix = "real list list"








subsection \<open>\<open>project_3d_to_2d\<close>\<close>

text \<open>\<open>torch.matmul(calib, v)\<close> for one column \<open>v\<close>: every row of \<open>calib\<close> must have the
  length of \<open>v\<close>.\<close>

definition matvec :: "matrix \<Rightarrow> real list \<Rightarrow> py_error + real list" where
  "matvec m v =
     (if list_all (\<lambda>row. length row = length v) m
      then Inr (map (\<lambda>row. sum_list (map2 (*) row v)) m)
      else Inl RuntimeError)"

text \<open>\<open>a / b\<close> for two one-dimensional operands, with broadcasting.\<close>

definition div_broadcast :: "real list \<Rightarrow> real list \<Rightarrow> py_error + real list" where
  "div_broadcast a b =
     (if length a = length b then Inr (map2 (/) a b)
      else if length b = 1 then Inr (map (\<lambda>x. x / b ! 0) a)
      else if length a = 1 then Inr (map (\<lambda>y. a ! 0 / y) b)
      else Inl RuntimeError)"

text \<open>One query of one batch element: lines 312 to 315 of the source for one row of
  \<open>outputs_coord[i]\<close>.\<close>

definition project_row :: "matrix \<Rightarrow> real list \<Rightarrow> py_error + real list" where
  "project_row calib coord =
     (let coords_3d = take 3 coord;
          coords_3d_homo = coords_3d @ map (\<lambda>_. 1) (take 1 coords_3d)
      in case matvec calib coords_3d_homo of
           Inl e \<Rightarrow> Inl e
         | Inr coords_2d \<Rightarrow> div_broadcast (take 2 coords_2d) (take 1 (drop 2 coords_2d)))"

text \<open>\<open>outputs_coord\<close> is the stack over the decoder layers, \<open>calibs\<close> the batch of
  calibration matrices. \<open>torch.stack\<close> of an empty list raises.\<close>

definition project_3d_to_2d :: "tensor list \<Rightarrow> tensor \<Rightarrow> py_error + tensor" where
  "project_3d_to_2d outputs_coord calibs =
     (if outputs_coord = [] then Inl IndexError
      else
        let coord = last outputs_coord;
            batch_size = length coord
        in case sequence
                  (map (\<lambda>i. case nth_chk calibs i of
                               Inl e \<Rightarrow> Inl e
                             | Inr calib \<Rightarrow> sequence (map (project_row calib) (coord ! i)))
                       [0..<batch_size]) of
             Inl e \<Rightarrow> Inl e
           | Inr projected_2d \<Rightarrow>
               if projected_2d = [] then Inl RuntimeError else Inr projected_2d)"

subsection \<open>\<open>forward\<close>: the prediction heads\<close>












subsection \<open>A small detector for concrete evaluation\<close>

definition ex_calibs :: tensor where
  "ex_calibs = [[[700, 0, 600, 40], [0, 700, 180, 2], [0, 0, 1, 1]]]"



subsection \<open>The projection, stated per point\<close>

text \<open>Component \<open>i\<close> of \<open>P\<close> applied to the homogeneous point (x, y, z, 1), where
  x, y, z are the first three components of \<open>coord\<close>.\<close>

definition homog :: "matrix \<Rightarrow> real list \<Rightarrow> nat \<Rightarrow> real" where
  "homog P coord i = P ! i ! 0 * coord ! 0 + P ! i ! 1 * coord ! 1 + P ! i ! 2 * coord ! 2 + P ! i ! 3"

text \<open>A batch of 3x4 calibration matrices for a batch of coordinate rows with at least
  three components each.\<close>

definition projectable :: "tensor \<Rightarrow> tensor \<Rightarrow> bool" where
  "projectable coord calibs \<longleftrightarrow>
     coord \<noteq> [] \<and> length coord \<le> length calibs \<and>
     list_all (\<lambda>b. length (calibs ! b) = 3 \<and> list_all (\<lambda>row. length row = 4) (calibs ! b) \<and>
                    list_all (\<lambda>c. 3 \<le> length c) (coord ! b))
              [0..<length coord]"



section \<open>The dataset: \<open>KITTI_Dataset\<close> of kitti_dataset.py\<close>

subsection \<open>\<open>get_calib\<close>\<close>






subsection \<open>Label encoding in \<open>__getitem__\<close>\<close>
























text \<open>The dictionary \<open>targets\<close> that \<open>__getitem__\<close> returns, without \<open>'img_size'\<close>.\<close>

record targets =
  t_calibs :: "matrix list"
  t_indices :: "int list"
  t_labels :: "nat list"
  t_boxes :: "real list list"
  t_boxes_3d :: "real list list"
  t_range :: "real list"
  t_size_2d :: "(real \<times> real) list"
  t_size_3d :: "(real \<times> real \<times> real) list"
  t_src_size_3d :: "(real \<times> real \<times> real) list"
  t_heading_bin :: "int list"
  t_heading_res :: "real list"
  t_mask_2d :: "bool list"
  t_obj_region :: "(int \<times> int \<times> int \<times> int) list"



subsection \<open>The filters and the count of encoded objects\<close>




subsection \<open>A small sample for concrete evaluation\<close>








section \<open>Properties of the criterion\<close>

subsection \<open>Loops as runs of steps\<close>


lemma sequence_append:
  "sequence (a @ b) = (case sequence a of Inl e \<Rightarrow> Inl e
       | Inr xs \<Rightarrow> (case sequence b of Inl e \<Rightarrow> Inl e | Inr ys \<Rightarrow> Inr (xs @ ys)))"
  by (induction a) (auto split: sum.splits)

lemma run_steps_append:
  "run_steps (a @ b) acc = (case run_steps a acc of Inl e \<Rightarrow> Inl e | Inr acc' \<Rightarrow> run_steps b acc')"
  by (auto simp: run_steps_def sequence_append split: sum.splits)

lemma run_steps_Nil: "run_steps [] acc = Inr acc"
  by (simp add: run_steps_def)

lemma run_steps_Cons:
  "run_steps (r # rs) acc =
     (case r of Inl e \<Rightarrow> Inl e | Inr d \<Rightarrow> run_steps rs (dict_update acc d))"
  by (auto simp: run_steps_def split: sum.splits)

lemma for_each_steps:
  "for_each xs (\<lambda>x acc. case g x of Inl e \<Rightarrow> Inl e | Inr d \<Rightarrow> Inr (dict_update acc (h d))) acc
     = run_steps (map (\<lambda>x. case g x of Inl e \<Rightarrow> Inl e | Inr d \<Rightarrow> Inr (h d)) xs) acc"
  by (induction xs arbitrary: acc) (auto simp: run_steps_Nil run_steps_Cons split: sum.splits)

lemma for_each_skip:
  "for_each xs (\<lambda>x acc. if P x then Inr acc else body x acc) acc
     = for_each (filter (\<lambda>x. \<not> P x) xs) body acc"
  by (induction xs arbitrary: acc) (auto split: sum.splits)

lemma for_each_concat:
  "for_each xs (\<lambda>x acc. run_steps (steps x) acc) acc = run_steps (concat (map steps xs)) acc"
  by (induction xs arbitrary: acc) (auto simp: run_steps_Nil run_steps_append split: sum.splits)

lemma suffix_keys_Nil: "suffix_keys [] d = d"
  by (induction d) (auto simp: suffix_keys_def)



lemma layer_loop:
  "(case matcher c mo targets (effective_group_num c) of Inl e \<Rightarrow> Inl e
    | Inr ind \<Rightarrow>
        for_each names
          (\<lambda>loss acc. case get_loss c loss lo targets ind nb (kw loss) of
                         Inl e \<Rightarrow> Inl e
                       | Inr l_dict \<Rightarrow> Inr (dict_update acc (suffix_keys sfx l_dict)))
          acc)
   = run_steps (layer_losses c nb targets names kw sfx mo lo) acc"
  by (auto simp: layer_losses_def for_each_steps run_steps_Cons split: sum.splits)

lemma aux_inner_loop:
  "for_each names
          (\<lambda>loss acc.
              if loss = ''range_map'' \<or> loss = ''region'' then Inr acc
              else
                let kwargs = (if loss = ''labels'' then Some False else None) in
                case get_loss c loss lo targets ind nb kwargs of
                         Inl e \<Rightarrow> Inl e
                       | Inr l_dict \<Rightarrow> Inr (dict_update acc (suffix_keys sfx l_dict)))
          acc
     = for_each (filter (\<lambda>loss. loss \<noteq> ''range_map'' \<and> loss \<noteq> ''region'') names)
          (\<lambda>loss acc. case get_loss c loss lo targets ind nb (aux_kwargs loss) of
                         Inl e \<Rightarrow> Inl e
                       | Inr l_dict \<Rightarrow> Inr (dict_update acc (suffix_keys sfx l_dict)))
          acc"
  by (induction names arbitrary: acc) (auto simp: aux_kwargs_def Let_def split: sum.splits)

lemma aux_layer_loop:
  "(case matcher c mo targets (effective_group_num c) of Inl e \<Rightarrow> Inl e
    | Inr ind \<Rightarrow>
        for_each names
          (\<lambda>loss acc.
              if loss = ''range_map'' \<or> loss = ''region'' then Inr acc
              else
                let kwargs = (if loss = ''labels'' then Some False else None) in
                case get_loss c loss lo targets ind nb kwargs of
                         Inl e \<Rightarrow> Inl e
                       | Inr l_dict \<Rightarrow> Inr (dict_update acc (suffix_keys sfx l_dict)))
          acc)
   = run_steps (layer_losses c nb targets
         (filter (\<lambda>loss. loss \<noteq> ''range_map'' \<and> loss \<noteq> ''region'') names) aux_kwargs sfx mo lo) acc"
  unfolding aux_inner_loop by (rule layer_loop)

lemma inter_loop:
  "for_each xs
     (\<lambda>(i, inter_outputs) acc.
         case matcher c inter_outputs targets (effective_group_num c) of Inl e \<Rightarrow> Inl e
         | Inr ind \<Rightarrow>
             for_each names
               (\<lambda>loss acc.
                  case get_loss c loss inter_outputs targets ind nb None of
                    Inl e \<Rightarrow> Inl e
                  | Inr l_dict \<Rightarrow>
                      Inr (dict_update acc (suffix_keys (''_inter_'' @ str_nat i) l_dict)))
               acc)
     acc
   = run_steps (concat (map (\<lambda>(i, inter_outputs).
                    layer_losses c nb targets names (\<lambda>_. None)
                      (''_inter_'' @ str_nat i) inter_outputs inter_outputs) xs)) acc"
proof -
  have "(\<lambda>(i, inter_outputs) acc.
         case matcher c inter_outputs targets (effective_group_num c) of Inl e \<Rightarrow> Inl e
         | Inr ind \<Rightarrow>
             for_each names
               (\<lambda>loss acc.
                  case get_loss c loss inter_outputs targets ind nb None of
                    Inl e \<Rightarrow> Inl e
                  | Inr l_dict \<Rightarrow>
                      Inr (dict_update acc (suffix_keys (''_inter_'' @ str_nat i) l_dict)))
               acc)
     = (\<lambda>x acc. run_steps ((\<lambda>(i, inter_outputs).
                    layer_losses c nb targets names (\<lambda>_. None)
                      (''_inter_'' @ str_nat i) inter_outputs inter_outputs) x) acc)"
    by (intro ext) (simp add: layer_loop split: prod.splits)
  then show ?thesis by (simp only: for_each_concat)
qed

lemma aux_loop:
  "for_each xs
     (\<lambda>(i, aux_outputs) acc.
         case matcher c aux_outputs targets (effective_group_num c) of Inl e \<Rightarrow> Inl e
         | Inr ind \<Rightarrow>
             for_each names
               (\<lambda>loss acc.
                  if loss = ''range_map'' \<or> loss = ''region'' then Inr acc
                  else
                    let kwargs = (if loss = ''labels'' then Some False else None) in
                    case get_loss c loss aux_outputs targets ind nb kwargs of
                      Inl e \<Rightarrow> Inl e
                    | Inr l_dict \<Rightarrow>
                        Inr (dict_update acc (suffix_keys (''_'' @ str_nat i) l_dict)))
               acc)
     acc
   = run_steps (concat (map (\<lambda>(i, aux_outputs).
                    layer_losses c nb targets
                      (filter (\<lambda>loss. loss \<noteq> ''range_map'' \<and> loss \<noteq> ''region'') names)
                      aux_kwargs (''_'' @ str_nat i) aux_outputs aux_outputs) xs)) acc"
proof -
  have "(\<lambda>(i, aux_outputs) acc.
         case matcher c aux_outputs targets (effective_group_num c) of Inl e \<Rightarrow> Inl e
         | Inr ind \<Rightarrow>
             for_each names
               (\<lambda>loss acc.
                  if loss = ''range_map'' \<or> loss = ''region'' then Inr acc
                  else
                    let kwargs = (if loss = ''labels'' then Some False else None) in
                    case get_loss c loss aux_outputs targets ind nb kwargs of
                      Inl e \<Rightarrow> Inl e
                    | Inr l_dict \<Rightarrow>
                        Inr (dict_update acc (suffix_keys (''_'' @ str_nat i) l_dict)))
               acc)
     = (\<lambda>x acc. run_steps ((\<lambda>(i, aux_outputs).
                    layer_losses c nb targets
                      (filter (\<lambda>loss. loss \<noteq> ''range_map'' \<and> loss \<noteq> ''region'') names)
                      aux_kwargs (''_'' @ str_nat i) aux_outputs aux_outputs) x) acc)"
    by (intro ext) (simp only: aux_layer_loop split: prod.splits, simp)
  then show ?thesis by (simp only: for_each_concat)
qed

lemma main_loop:
  "(case matcher c mo targets (effective_group_num c) of Inl e \<Rightarrow> Inl e
    | Inr ind \<Rightarrow>
        (case for_each names
          (\<lambda>loss acc. case get_loss c loss lo targets ind nb None of
                         Inl e \<Rightarrow> Inl e
                       | Inr l_dict \<Rightarrow> Inr (dict_update acc l_dict))
          acc of Inl e \<Rightarrow> Inl e | Inr acc2 \<Rightarrow> k acc2))
   = (case run_steps (layer_losses c nb targets names (\<lambda>_. None) [] mo lo) acc of
        Inl e \<Rightarrow> Inl e | Inr acc2 \<Rightarrow> k acc2)"
  by (cases "matcher c mo targets (effective_group_num c)")
     (simp_all add: layer_losses_def for_each_steps [where h = "\<lambda>d. d"] run_steps_Cons
        suffix_keys_Nil cong: sum.case_cong)


subsection \<open>Gathering by a matching\<close>

lemma sequence_map_Inr:
  "\<forall>x\<in>set xs. f x = Inr (g x) \<Longrightarrow> sequence (map f xs) = Inr (map g xs)"
proof (induction xs)
  case Nil
  show ?case by simp
next
  case (Cons a xs)
  have a: "f a = Inr (g a)" using Cons.prems by simp
  have "sequence (map f xs) = Inr (map g xs)" using Cons by simp
  then show ?case by (simp add: a)
qed

lemma map_nth_gen: "map (\<lambda>k. f (xs ! k)) [0..<length xs] = map f xs"
  by (rule nth_equalityI) simp_all














lemma num_boxes_of_ge_1: "1 \<le> num_boxes_of c world_size targets"
  by (simp add: num_boxes_of_def Let_def)


subsection \<open>The claims about \<open>SetCriterion\<close>\<close>

text \<open>
  C7. For a loss name outside the ten supported keys \<open>get_loss\<close> fails with an
  assertion error; for each of the ten keys it returns the result of the corresponding
  loss method on the given outputs, targets, indices and \<open>num_boxes\<close>.
\<close>

theorem get_loss_dispatch:
  "(loss \<notin> set supported_losses \<longrightarrow>
      get_loss c loss out targets ind num_boxes kwargs = Inl AssertionError) \<and>
   get_loss c ''labels'' out targets ind num_boxes None
     = loss_labels c True out targets ind num_boxes \<and>
   get_loss c ''cardinality'' out targets ind num_boxes None
     = loss_cardinality c out targets ind num_boxes \<and>
   get_loss c ''boxes'' out targets ind num_boxes None
     = loss_boxes c out targets ind num_boxes \<and>
   get_loss c ''ranges'' out targets ind num_boxes None
     = loss_ranges out targets ind num_boxes \<and>
   get_loss c ''dims'' out targets ind num_boxes None
     = loss_dims c out targets ind num_boxes \<and>
   get_loss c ''angles'' out targets ind num_boxes None
     = loss_angles c out targets ind num_boxes \<and>
   get_loss c ''center'' out targets ind num_boxes None
     = loss_3dcenter c out targets ind num_boxes \<and>
   get_loss c ''range_map'' out targets ind num_boxes None
     = loss_range_map c out targets ind num_boxes \<and>
   get_loss c ''region'' out targets ind num_boxes None
     = loss_region c out targets ind num_boxes \<and>
   get_loss c ''cycle_consistency'' out targets ind num_boxes None
     = loss_cycle_consistency c out targets ind num_boxes"
  by (simp add: get_loss_def loss_map_def supported_losses_def no_kwargs_def)

theorem get_loss_dispatch_witness:
  "''masks'' \<notin> set supported_losses \<and>
   get_loss ex_criterion ''masks'' ex_outputs ex_targets [([1], [0])] 1 None = Inl AssertionError \<and>
   get_loss ex_criterion ''center'' ex_outputs ex_targets [([1], [0])] 1 None
     = Inr [(''loss_center'', 1)]"
  using get_loss_dispatch [of "''masks''" ex_criterion ex_outputs ex_targets "[([1], [0])]" 1 None]
  by (simp add: supported_losses_def ex_criterion_def const_loss_def)

text \<open>
  C9. \<open>num_boxes\<close> as \<open>forward\<close> computes it is at least 1, for every list of targets
  (also one without any label), and it is the value every call of \<open>get_loss\<close> in
  \<open>forward\<close> receives: \<open>forward\<close> computes the same with a \<open>get_loss\<close> that raises
  as soon as it is handed a \<open>num_boxes\<close> below 1. So no loss term divides by less
  than 1.
\<close>

theorem num_boxes_clamped:
  "0 < world_size \<Longrightarrow>
     1 \<le> num_boxes_of c world_size targets \<and>
     forward c world_size out targets
       = forward_with (num_boxes_guard get_loss) c world_size out targets"
  by (simp add: forward_def forward_with_def num_boxes_guard_def Let_def num_boxes_of_ge_1
        cong: sum.case_cong if_cong)

theorem num_boxes_clamped_witness:
  "(0::nat) < 1 \<and> 1 \<le> num_boxes_of ex_criterion 1 [] \<and>
     forward ex_criterion 1 ex_outputs []
       = forward_with (num_boxes_guard get_loss) ex_criterion 1 ex_outputs []"
  using num_boxes_clamped [of 1 ex_criterion "[]" ex_outputs] by simp


text \<open>
  C1 (amended). \<open>SetCriterion.forward\<close> is the run of three groups of steps on an empty
  loss dictionary, in this order. For every entry i of \<open>outputs['inter_outputs']\<close>:
  a fresh matching of that entry, then every loss named in \<open>self.inter_losses\<close> on
  it, keys suffixed \<open>_inter_i\<close>. For the outputs themselves: the matching of the
  outputs without \<open>'aux_outputs'\<close> and \<open>'inter_outputs'\<close>, then every loss named in
  \<open>self.losses\<close>. For every entry i of \<open>outputs['aux_outputs']\<close>, when that key is
  present: a fresh matching of that entry, then every loss named in \<open>self.losses\<close>
  except \<open>'range_map'\<close> and \<open>'region'\<close> (with \<open>log=False\<close> for \<open>'labels'\<close>), keys
  suffixed \<open>_i\<close>.
\<close>

theorem forward_layerwise:
  "forward c world_size out targets = forward_layers (inter_losses c) c world_size out targets"
proof (cases "outputs_layers out ''inter_outputs''")
  case (Inl e)
  then show ?thesis by (simp add: forward_def forward_with_def forward_layers_def)
next
  case (Inr inter_list)
  show ?thesis
    unfolding forward_def forward_with_def forward_layers_def Let_def Inr sum.case
      inter_loop main_loop aux_loop [unfolded Let_def] run_steps_append inter_steps_def main_steps_def
    by (auto simp: aux_steps_def outputs_layers_def dict_get_def run_steps_Nil run_steps_Cons
          split: sum.splits option.splits outval.splits)
qed

text \<open>
  C1 as stated fails: with \<open>self.losses = ['cardinality']\<close> and
  \<open>self.inter_losses = ['center']\<close> the intermediate layer contributes
  \<open>loss_center_inter_0\<close>, not the loss of \<open>self.losses\<close>.
\<close>

theorem forward_as_claimed_counterexample:
  "forward ex_criterion 1 ex_outputs ex_targets
     = Inr [(''loss_center_inter_0'', 1), (''cardinality_error'', 1)] \<and>
   forward_as_claimed ex_criterion 1 ex_outputs ex_targets
     = Inr [(''cardinality_error_inter_0'', 1), (''cardinality_error'', 1)] \<and>
   forward ex_criterion 1 ex_outputs ex_targets
     \<noteq> forward_as_claimed ex_criterion 1 ex_outputs ex_targets"
  by (simp add: forward_def forward_with_def forward_as_claimed_def forward_layers_def
        ex_criterion_def ex_outputs_def ex_targets_def outputs_layers_def dict_get_def
        num_boxes_of_def effective_group_num_def ex_matcher_def get_loss_def loss_map_def
        no_kwargs_def const_loss_def dict_update_def suffix_keys_def str_nat.simps
        digit_char_def run_steps_def inter_steps_def main_steps_def aux_steps_def
        layer_losses_def)



section \<open>Properties of the detector\<close>


lemma list3: "length xs = 3 \<Longrightarrow> \<exists>a b c. xs = [a, b, c]"
  by (cases xs; cases "tl xs"; cases "tl (tl xs)") auto

lemma list4: "length xs = 4 \<Longrightarrow> \<exists>a b c d. xs = [a, b, c, d]"
  by (cases xs; cases "tl xs"; cases "tl (tl xs)"; cases "tl (tl (tl xs))") auto

lemma list_ge3: "3 \<le> length xs \<Longrightarrow> \<exists>a b c r. xs = a # b # c # r"
  by (cases xs; cases "tl xs"; cases "tl (tl xs)") auto

lemma project_row_eq:
  assumes "length P = 3" "list_all (\<lambda>row. length row = 4) P" "3 \<le> length coord"
  shows "project_row P coord
           = Inr [homog P coord 0 / homog P coord 2, homog P coord 1 / homog P coord 2]"
proof -
  from assms(1) obtain r0 r1 r2 where P: "P = [r0, r1, r2]" using list3 by blast
  from assms(2) P have "length r0 = 4" "length r1 = 4" "length r2 = 4" by simp_all
  then obtain a0 b0 c0 d0 a1 b1 c1 d1 a2 b2 c2 d2
    where r: "r0 = [a0, b0, c0, d0]" "r1 = [a1, b1, c1, d1]" "r2 = [a2, b2, c2, d2]"
    using list4 [of r0] list4 [of r1] list4 [of r2] by auto
  from assms(3) obtain x y z rest where c: "coord = x # y # z # rest" using list_ge3 by blast
  show ?thesis
    by (simp add: project_row_def matvec_def div_broadcast_def homog_def P r c add.assoc)
qed


text \<open>
  C4. For a batch of 3x4 calibration matrices and coordinate rows with at least three
  components, \<open>project_3d_to_2d\<close> returns a tensor of shape (batch size, number of
  queries, 2) computed from the last decoder layer's coordinates: with h the matrix P of
  the batch element applied to the homogeneous point (x, y, z, 1), the entry of a query
  is (h_0 / h_2, h_1 / h_2). The quotient is stated where h_2 is not zero.
\<close>

theorem project_3d_to_2d_perspective:
  assumes ne: "outputs_coord \<noteq> []"
      and pr: "projectable (last outputs_coord) calibs"
  shows "\<exists>p. project_3d_to_2d outputs_coord calibs = Inr p \<and>
             length p = length (last outputs_coord) \<and>
             (\<forall>b<length p.
                length (p ! b) = length (last outputs_coord ! b) \<and>
                (\<forall>q<length (p ! b).
                   length (p ! b ! q) = 2 \<and>
                   (homog (calibs ! b) (last outputs_coord ! b ! q) 2 \<noteq> 0 \<longrightarrow>
                    p ! b ! q =
                      [homog (calibs ! b) (last outputs_coord ! b ! q) 0
                         / homog (calibs ! b) (last outputs_coord ! b ! q) 2,
                       homog (calibs ! b) (last outputs_coord ! b ! q) 1
                         / homog (calibs ! b) (last outputs_coord ! b ! q) 2])))"
proof -
  define coord where "coord = last outputs_coord"
  define g where "g = (\<lambda>P c. [homog P c 0 / homog P c 2, homog P c 1 / homog P c 2])"
  define p where "p = map (\<lambda>b. map (g (calibs ! b)) (coord ! b)) [0..<length coord]"
  from pr have cne: "coord \<noteq> []" and len: "length coord \<le> length calibs"
    and ok: "\<And>b. b < length coord \<Longrightarrow>
               length (calibs ! b) = 3 \<and> list_all (\<lambda>row. length row = 4) (calibs ! b) \<and>
               list_all (\<lambda>c. 3 \<le> length c) (coord ! b)"
    by (simp_all add: projectable_def coord_def list_all_iff)
  have row: "(case nth_chk calibs b of Inl e \<Rightarrow> Inl e
              | Inr calib \<Rightarrow> sequence (map (project_row calib) (coord ! b)))
             = Inr (map (g (calibs ! b)) (coord ! b))" if "b < length coord" for b
  proof -
    have "sequence (map (project_row (calibs ! b)) (coord ! b)) = Inr (map (g (calibs ! b)) (coord ! b))"
      by (rule sequence_map_Inr) (use ok [OF that] in \<open>auto simp: g_def project_row_eq list_all_iff\<close>)
    then show ?thesis using that len by (simp add: nth_chk_def)
  qed
  have sq: "sequence (map (\<lambda>i. case nth_chk calibs i of Inl e \<Rightarrow> Inl e
                | Inr calib \<Rightarrow> sequence (map (project_row calib) (coord ! i))) [0..<length coord])
        = Inr p"
    unfolding p_def by (rule sequence_map_Inr) (simp add: row)
  have pne: "p \<noteq> []" using cne by (simp add: p_def)
  have "project_3d_to_2d outputs_coord calibs = Inr p"
    unfolding project_3d_to_2d_def Let_def coord_def [symmetric] sq
    using ne pne by simp
  moreover have "length p = length coord" by (simp add: p_def)
  moreover have "\<forall>b<length p. length (p ! b) = length (coord ! b) \<and>
      (\<forall>q<length (p ! b). length (p ! b ! q) = 2 \<and> p ! b ! q = g (calibs ! b) (coord ! b ! q))"
    by (simp add: p_def g_def)
  ultimately show ?thesis unfolding coord_def g_def by auto
qed

theorem project_3d_to_2d_perspective_witness:
  "[[[[1 / 2, 1 / 2, 1 / 2, 1 / 2, 1 / 2, 1 / 2]]]] \<noteq> ([] :: tensor list) \<and>
   projectable [[[1 / 2, 1 / 2, 1 / 2, 1 / 2, 1 / 2, 1 / 2]]] ex_calibs \<and>
   homog (ex_calibs ! 0) [1 / 2, 1 / 2, 1 / 2, 1 / 2, 1 / 2, 1 / 2] 2 \<noteq> 0 \<and>
   project_3d_to_2d [[[[1 / 2, 1 / 2, 1 / 2, 1 / 2, 1 / 2, 1 / 2]]]] ex_calibs
     = Inr [[[460, 884 / 3]]]"
  using project_3d_to_2d_perspective
          [of "[[[[1 / 2, 1 / 2, 1 / 2, 1 / 2, 1 / 2, 1 / 2]]]]" ex_calibs]
  by (simp add: projectable_def ex_calibs_def homog_def project_3d_to_2d_def project_row_def
        matvec_def div_broadcast_def nth_chk_def)












section \<open>Properties of the dataset\<close>

subsection \<open>The encoding loops\<close>










subsection \<open>The rows that the loop body writes\<close>










subsection \<open>The claims about \<open>KITTI_Dataset\<close>\<close>












end
